theory Spec2Isabelle
  imports Main "HOL-Library.AList"
begin

section \<open>Expression compiler (src/lib/expressions.ts)\<close>

text \<open>
  \<^verbatim>\<open>type Value = string | number | boolean\<close>. The compiler never inspects a number, it
  only copies it into the bindings, so the type of numbers is left as the parameter \<open>'n\<close>.
\<close>

datatype 'n Value = VString string | VNumber 'n | VBoolean bool

text \<open>
  \<^verbatim>\<open>type Expression = Value | [Operator, Value] | ["between", Value, Value]\<close>.
  At run time the code only asks \<^verbatim>\<open>expr instanceof Array\<close> and then reads \<^verbatim>\<open>expr[0]\<close>,
  \<^verbatim>\<open>expr[1]\<close>, \<^verbatim>\<open>expr[2]\<close>. \<open>Array t rest\<close> is the JavaScript array whose element 0 is the
  operator tag \<open>t\<close> (a string, as both array types say) and whose elements 1, 2, ... are
  \<open>rest\<close>. The tag is any string and \<open>rest\<close> has any length, since the types are erased
  when the code runs.
\<close>

datatype 'n Expression = Scalar "'n Value" | Array string "'n Value list"

text \<open>
  An object such as \<^verbatim>\<open>Record<string, Value>\<close> is the list of its entries in property order
  (none of the property names synthesized here is an integer index). A property holds
  \<open>None\<close> when the code stored \<^verbatim>\<open>undefined\<close> in it.
\<close>

type_synonym 'n Values = "(string \<times> 'n Value option) list"

text \<open>\<^verbatim>\<open>expr[i]\<close>: an index outside the array reads as \<^verbatim>\<open>undefined\<close>.\<close>

definition element :: "'n Expression \<Rightarrow> nat \<Rightarrow> 'n Value option" where
  "element expr i =
     (case expr of
        Scalar v \<Rightarrow> None
      | Array t rest \<Rightarrow>
          if i = 0 then Some (VString t)
          else if i - 1 < length rest then Some (rest ! (i - 1))
          else None)"

text \<open>
  \<^verbatim>\<open>{ ...a, ...b }\<close>: the properties of \<open>a\<close>, then each property of \<open>b\<close> in order, which
  replaces the value of a property already there (in its place) or is added at the end.
\<close>

definition spread :: "('k \<times> 'v) list \<Rightarrow> ('k \<times> 'v) list \<Rightarrow> ('k \<times> 'v) list" where
  "spread a b = fold (\<lambda>(k, v) acc. AList.update k v acc) b a"

text \<open>An object literal \<^verbatim>\<open>{ [k1]: v1, [k2]: v2 }\<close> sets its properties in order.\<close>

definition object :: "('k \<times> 'v) list \<Rightarrow> ('k \<times> 'v) list" where
  "object kvs = spread [] kvs"

text \<open>\<^verbatim>\<open>Array.prototype.join\<close> on an array of strings.\<close>

fun join :: "string \<Rightarrow> string list \<Rightarrow> string" where
  "join sep [] = ''''"
| "join sep [x] = x"
| "join sep (x # y # ys) = x @ sep @ join sep (y # ys)"

text \<open>\<^verbatim>\<open>const operator = expr instanceof Array ? expr[0] : "="\<close>\<close>

fun operator_of :: "'n Expression \<Rightarrow> string" where
  "operator_of (Array t rest) = t"
| "operator_of (Scalar v) = ''=''"

definition toExpression :: "string \<Rightarrow> 'n Expression \<Rightarrow> string" where
  "toExpression key expr =
     (let operator = operator_of expr in
      if operator = ''between'' then key @ '' between :'' @ key @ ''min and :'' @ key @ ''max''
      else if operator = ''begins_with'' then ''begins_with('' @ key @ '', :'' @ key @ '')''
      else key @ '' '' @ operator @ '' :'' @ key)"

definition toExpressionValue :: "string \<Rightarrow> 'n Expression \<Rightarrow> 'n Values" where
  "toExpressionValue key expr =
     (let operator = operator_of expr;
          value = (case expr of Array t rest \<Rightarrow> element expr 1 | Scalar v \<Rightarrow> Some v) in
      if operator = ''between''
      then object [('':'' @ key @ ''min'', element expr 1), ('':'' @ key @ ''max'', element expr 2)]
      else object [('':'' @ key, value)])"

text \<open>
  The object \<^verbatim>\<open>{ values, expression }\<close> that both compilers return. The property
  \<^verbatim>\<open>values\<close> is the field \<open>values'\<close>. \<^verbatim>\<open>toKeyConditionExpression\<close> always returns a string
  in \<^verbatim>\<open>expression\<close>; \<^verbatim>\<open>toFilterConditionExpression\<close> returns a string or \<^verbatim>\<open>undefined\<close>,
  which is \<open>None\<close>.
\<close>

record ('n, 'e) Condition =
  values' :: "'n Values"
  expression :: 'e

text \<open>
  \<open>keys\<close> is \<^verbatim>\<open>Object.entries(keys)\<close>, the entries of the argument in iteration order.
\<close>

definition toKeyConditionExpression ::
    "(string \<times> 'n Expression) list \<Rightarrow> ('n, string) Condition" where
  "toKeyConditionExpression keys =
     (let values = fold (\<lambda>current values. spread values current)
                     (map (\<lambda>(key, expr). toExpressionValue key expr) keys) [];
          expression = join '' and '' (map (\<lambda>(key, expr). toExpression key expr) keys)
      in \<lparr> values' = values, expression = expression \<rparr>)"

text \<open>The optional argument \<^verbatim>\<open>filter\<close> is \<open>None\<close> when it is absent (\<^verbatim>\<open>!filter\<close> holds).\<close>

definition toFilterConditionExpression ::
    "(string \<times> 'n Expression) list option \<Rightarrow> ('n, string option) Condition" where
  "toFilterConditionExpression filter' =
     (case filter' of
        None \<Rightarrow> \<lparr> values' = [], expression = None \<rparr>
      | Some keys \<Rightarrow>
          (let c = toKeyConditionExpression keys
           in \<lparr> values' = values' c, expression = Some (expression c) \<rparr>))"

section \<open>Repository (src/lib/repository.ts)\<close>

text \<open>
  An async generator, run to its end: the values it yields, in order, and then either its
  normal return or the exception that ended it. What was yielded before an exception stays
  in front of it. The paginators of the storage client are generators of pages, and
  \<^verbatim>\<open>scan\<close> and \<^verbatim>\<open>query\<close> are generators of items.
\<close>

datatype ('a, 'e) Generated = Yield 'a "('a, 'e) Generated" | Return | Throw 'e

text \<open>A page of a paginator; \<^verbatim>\<open>page.Items\<close> may be \<^verbatim>\<open>undefined\<close>.\<close>

record 'i Page =
  Items :: "'i list option"

text \<open>
  The storage client \<^verbatim>\<open>DynamoDBDocument\<close> belongs to the AWS SDK, so it is a parameter:
  a storage state \<open>'s\<close> and the four calls the repository makes. Each call gets the
  properties of its input object as arguments: \<^verbatim>\<open>put({ Item, TableName })\<close> is
  \<open>doc_put TableName Item\<close>, \<^verbatim>\<open>get({ TableName, Key })\<close> is \<open>doc_get TableName Key\<close> and
  returns the \<^verbatim>\<open>Item\<close> of its output (\<open>None\<close> for \<^verbatim>\<open>undefined\<close>),
  \<^verbatim>\<open>paginateScan\<close> gets \<open>TableName\<close>, and \<^verbatim>\<open>paginateQuery\<close> gets \<open>TableName\<close>,
  \<open>KeyConditionExpression\<close>, \<open>ExpressionAttributeValues\<close> and \<open>IndexName\<close>.
  A call that rejects returns \<open>Inl\<close> of the client's exception.
\<close>

record ('s, 'i, 'k, 'x, 'n) DynamoDBDocument =
  doc_put :: "string \<Rightarrow> 'i \<Rightarrow> 's \<Rightarrow> ('x + unit) \<times> 's"
  doc_get :: "string \<Rightarrow> 'k \<Rightarrow> 's \<Rightarrow> 'x + 'i option"
  paginateScan :: "string \<Rightarrow> 's \<Rightarrow> ('i Page, 'x) Generated"
  paginateQuery ::
    "string \<Rightarrow> string \<Rightarrow> 'n Values \<Rightarrow> string option \<Rightarrow> 's \<Rightarrow> ('i Page, 'x) Generated"

text \<open>
  The schema is a Zod type, also a parameter: \<^verbatim>\<open>schema.parse(data)\<close> returns the parsed
  item or throws a \<^verbatim>\<open>ZodError\<close> with a diagnostic \<open>'d\<close>. A schema may generate defaults
  (\<^verbatim>\<open>z.string().default(() => uuid())\<close> in the tests), so \<open>parse\<close> reads and advances a
  generator state \<open>'g\<close>.
\<close>

type_synonym ('i, 'g, 'd) ZodType = "'i \<Rightarrow> 'g \<Rightarrow> ('d + 'i) \<times> 'g"

record ('s, 'i, 'k, 'x, 'n, 'g, 'd) Repository =
  dynamodb :: "('s, 'i, 'k, 'x, 'n) DynamoDBDocument"
  tableName :: string
  schema :: "('i, 'g, 'd) ZodType"

text \<open>
  What a repository call can throw: the schema's \<^verbatim>\<open>ZodError\<close> (the validation error),
  its own \<^verbatim>\<open>NotFoundError\<close> with its message, or an exception of the storage client,
  which passes through.
\<close>

datatype ('d, 'x) Error = ZodError 'd | NotFoundError string | DynamoDBServiceException 'x

record ('s, 'g) World =
  storage :: 's
  generator :: 'g

record QueryParams =
  index :: "string option"

definition parse ::
    "('s, 'i, 'k, 'x, 'n, 'g, 'd) Repository \<Rightarrow> 'i \<Rightarrow> 'g \<Rightarrow> ('d + 'i) \<times> 'g" where
  "parse r data g = schema r data g"

definition put ::
    "('s, 'i, 'k, 'x, 'n, 'g, 'd) Repository \<Rightarrow> 'i \<Rightarrow> ('s, 'g) World
      \<Rightarrow> (('d, 'x) Error + 'i) \<times> ('s, 'g) World" where
  "put r data w =
     (case parse r data (generator w) of
        (Inl d, g') \<Rightarrow> (Inl (ZodError d), w\<lparr>generator := g'\<rparr>)
      | (Inr parsed, g') \<Rightarrow>
          (case doc_put (dynamodb r) (tableName r) parsed (storage w) of
             (Inl x, s') \<Rightarrow> (Inl (DynamoDBServiceException x), \<lparr>storage = s', generator = g'\<rparr>)
           | (Inr _, s') \<Rightarrow> (Inr parsed, \<lparr>storage = s', generator = g'\<rparr>)))"

text \<open>
  \<^verbatim>\<open>JSON.stringify\<close> is a built-in of the language and is passed as \<open>JSON_stringify\<close>.
\<close>

definition get ::
    "('k \<Rightarrow> string) \<Rightarrow> ('s, 'i, 'k, 'x, 'n, 'g, 'd) Repository \<Rightarrow> 'k \<Rightarrow> ('s, 'g) World
      \<Rightarrow> (('d, 'x) Error + 'i) \<times> ('s, 'g) World" where
  "get JSON_stringify r key w =
     (case doc_get (dynamodb r) (tableName r) key (storage w) of
        Inl x \<Rightarrow> (Inl (DynamoDBServiceException x), w)
      | Inr None \<Rightarrow>
          (Inl (NotFoundError
                  (''Item not found in '' @ tableName r @ '' for keys '' @ JSON_stringify key)),
           w)
      | Inr (Some Item) \<Rightarrow>
          (case parse r Item (generator w) of
             (Inl d, g') \<Rightarrow> (Inl (ZodError d), w\<lparr>generator := g'\<rparr>)
           | (Inr parsed, g') \<Rightarrow> (Inr parsed, w\<lparr>generator := g'\<rparr>)))"

text \<open>
  The loop of \<^verbatim>\<open>scan\<close> and of \<^verbatim>\<open>query\<close>:
  \<^verbatim>\<open>for await (const page of paginator) { for (const item of page.Items ?? []) { yield this.parse(item); } }\<close>.
  \<open>items\<close> are the items of the current page still to come, \<open>paginator\<close> the pages still
  to come.
\<close>

fun yieldAll ::
    "('s, 'i, 'k, 'x, 'n, 'g, 'd) Repository \<Rightarrow> 'i list \<Rightarrow> ('i Page, 'x) Generated \<Rightarrow> 'g
      \<Rightarrow> ('i, ('d, 'x) Error) Generated" where
  "yieldAll r (item # items) paginator g =
     (case parse r item g of
        (Inl d, g') \<Rightarrow> Throw (ZodError d)
      | (Inr parsed, g') \<Rightarrow> Yield parsed (yieldAll r items paginator g'))"
| "yieldAll r [] (Yield page paginator) g =
     yieldAll r (case Items page of None \<Rightarrow> [] | Some items \<Rightarrow> items) paginator g"
| "yieldAll r [] Return g = Return"
| "yieldAll r [] (Throw x) g = Throw (DynamoDBServiceException x)"

text \<open>The paginator that \<^verbatim>\<open>scan\<close> builds: \<^verbatim>\<open>paginateScan({ client }, { TableName })\<close>.\<close>

definition scanPaginator ::
    "('s, 'i, 'k, 'x, 'n, 'g, 'd) Repository \<Rightarrow> ('s, 'g) World \<Rightarrow> ('i Page, 'x) Generated" where
  "scanPaginator r w = paginateScan (dynamodb r) (tableName r) (storage w)"

definition scan ::
    "('s, 'i, 'k, 'x, 'n, 'g, 'd) Repository \<Rightarrow> ('s, 'g) World
      \<Rightarrow> ('i, ('d, 'x) Error) Generated" where
  "scan r w = yieldAll r [] (scanPaginator r w) (generator w)"

text \<open>
  The paginator that \<^verbatim>\<open>query\<close> builds from the compiled key condition:
  \<^verbatim>\<open>paginateQuery({ client }, { TableName, KeyConditionExpression: expression,
  ExpressionAttributeValues: values, IndexName: params?.index })\<close>.
\<close>

definition queryPaginator ::
    "('s, 'i, 'k, 'x, 'n, 'g, 'd) Repository \<Rightarrow> (string \<times> 'n Expression) list
      \<Rightarrow> QueryParams option \<Rightarrow> ('s, 'g) World \<Rightarrow> ('i Page, 'x) Generated" where
  "queryPaginator r keys params w =
     (let c = toKeyConditionExpression keys
      in paginateQuery (dynamodb r) (tableName r) (expression c) (values' c)
           (case params of None \<Rightarrow> None | Some p \<Rightarrow> index p) (storage w))"

definition query ::
    "('s, 'i, 'k, 'x, 'n, 'g, 'd) Repository \<Rightarrow> (string \<times> 'n Expression) list
      \<Rightarrow> QueryParams option \<Rightarrow> ('s, 'g) World \<Rightarrow> ('i, ('d, 'x) Error) Generated" where
  "query r keys params w = yieldAll r [] (queryPaginator r keys params w) (generator w)"

text \<open>Reading a run: what was yielded, what was thrown, and the raw items of all pages.\<close>

fun yielded :: "('a, 'e) Generated \<Rightarrow> 'a list" where
  "yielded (Yield a rest) = a # yielded rest"
| "yielded Return = []"
| "yielded (Throw e) = []"

fun thrown :: "('a, 'e) Generated \<Rightarrow> 'e option" where
  "thrown (Yield a rest) = thrown rest"
| "thrown Return = None"
| "thrown (Throw e) = Some e"

fun fetched :: "('i Page, 'x) Generated \<Rightarrow> 'i list" where
  "fetched (Yield page rest) = (case Items page of None \<Rightarrow> [] | Some items \<Rightarrow> items) @ fetched rest"
| "fetched Return = []"
| "fetched (Throw x) = []"

text \<open>
  The generator state in which the loop validates the \<open>j\<close>-th of the raw items \<open>raw\<close>,
  when it starts in \<open>g\<close>: each item before it has been through \<open>parse\<close>.
\<close>

fun generatorAt ::
    "('s, 'i, 'k, 'x, 'n, 'g, 'd) Repository \<Rightarrow> 'i list \<Rightarrow> 'g \<Rightarrow> nat \<Rightarrow> 'g" where
  "generatorAt r raw g 0 = g"
| "generatorAt r [] g (Suc j) = g"
| "generatorAt r (item # raw) g (Suc j) = generatorAt r raw (snd (parse r item g)) j"

text \<open>
  A run of \<^verbatim>\<open>scan\<close> or \<^verbatim>\<open>query\<close> over the raw items \<open>raw\<close> of the pages, started in the
  generator state \<open>g\<close>, hands out validated items only when: the \<open>j\<close>-th item yielded is
  what the schema returned for the \<open>j\<close>-th raw item; a run that stops with a \<^verbatim>\<open>ZodError\<close>
  stops at the raw item that comes next, with the schema's diagnostic for that item, and
  keeps what it yielded before; and a run that does not stop with a \<^verbatim>\<open>ZodError\<close> has
  yielded an item for every raw item.
\<close>

definition validatedRun ::
    "('s, 'i, 'k, 'x, 'n, 'g, 'd) Repository \<Rightarrow> 'i list \<Rightarrow> 'g
      \<Rightarrow> ('i, ('d, 'x) Error) Generated \<Rightarrow> bool" where
  "validatedRun r raw g run \<longleftrightarrow>
     length (yielded run) \<le> length raw \<and>
     (\<forall>j < length (yielded run).
        fst (parse r (raw ! j) (generatorAt r raw g j)) = Inr (yielded run ! j)) \<and>
     (\<forall>d. thrown run = Some (ZodError d) \<longrightarrow>
          length (yielded run) < length raw \<and>
          fst (parse r (raw ! length (yielded run))
                 (generatorAt r raw g (length (yielded run)))) = Inl d) \<and>
     ((\<forall>d. thrown run \<noteq> Some (ZodError d)) \<longrightarrow> length (yielded run) = length raw)"

section \<open>Example repositories\<close>

text \<open>
  Concrete schemas, a concrete storage client and concrete items, on which the theorems
  below are instantiated. Items and keys are objects with string, number and boolean
  attributes; numbers are integers here.
\<close>

type_synonym Item = "(string \<times> int Value) list"

text \<open>
  An in-memory client: the storage is the list of (table, item) pairs, the primary key of
  an item is its \<open>pk\<close> and \<open>sk\<close>, a write replaces the item with the same primary key, a
  read returns the item that has every attribute of the key, and both paginators return
  pages of two items. The query paginator supports the partition key only: it returns the
  items whose \<open>pk\<close> is the value bound to \<open>:pk\<close>.
\<close>

definition primaryKey :: "Item \<Rightarrow> int Value option \<times> int Value option" where
  "primaryKey item = (map_of item ''pk'', map_of item ''sk'')"

definition hasKey :: "Item \<Rightarrow> Item \<Rightarrow> bool" where
  "hasKey key item = list_all (\<lambda>(a, v). map_of item a = Some v) key"

fun pagesOf :: "Item list \<Rightarrow> (Item Page, string) Generated" where
  "pagesOf (a # b # rest) = Yield \<lparr>Items = Some [a, b]\<rparr> (pagesOf rest)"
| "pagesOf [a] = Yield \<lparr>Items = Some [a]\<rparr> Return"
| "pagesOf [] = Yield \<lparr>Items = Some []\<rparr> Return"

definition itemsOf :: "string \<Rightarrow> (string \<times> Item) list \<Rightarrow> Item list" where
  "itemsOf t s = map snd (filter (\<lambda>(t', i). t' = t) s)"

definition memoryClient ::
    "((string \<times> Item) list, Item, Item, string, int) DynamoDBDocument" where
  "memoryClient =
     \<lparr> doc_put = (\<lambda>t item s.
         (Inr (), filter (\<lambda>(t', i). \<not> (t' = t \<and> primaryKey i = primaryKey item)) s @ [(t, item)])),
       doc_get = (\<lambda>t key s. Inr (find (hasKey key) (itemsOf t s))),
       paginateScan = (\<lambda>t s. pagesOf (itemsOf t s)),
       paginateQuery = (\<lambda>t e vs ix s.
         pagesOf (filter (\<lambda>i. map_option Some (map_of i ''pk'') = map_of vs '':pk'') (itemsOf t s))) \<rparr>"

text \<open>
  A schema in the manner of the tests' \<^verbatim>\<open>PostSchema\<close>: \<open>likes\<close> must be a number, \<open>postId\<close>
  is a string or is generated when absent, and the transform adds \<open>pk\<close> and \<open>sk\<close>.
\<close>

definition uuid :: "nat \<Rightarrow> string" where
  "uuid g = ''id'' @ replicate g (CHR ''x'')"

definition post :: "string \<Rightarrow> int \<Rightarrow> Item" where
  "post p n =
     [(''postId'', VString p), (''likes'', VNumber n), (''pk'', VString p), (''sk'', VString ''post'')]"

definition PostSchema :: "(Item, nat, string) ZodType" where
  "PostSchema item g =
     (case map_of item ''likes'' of
        Some (VNumber n) \<Rightarrow>
          (case map_of item ''postId'' of
             None \<Rightarrow> (Inr (post (uuid g) n), Suc g)
           | Some (VString p) \<Rightarrow> (Inr (post p n), g)
           | Some _ \<Rightarrow> (Inl ''postId: expected string'', g))
      | _ \<Rightarrow> (Inl ''likes: expected number'', g))"

definition posts ::
    "((string \<times> Item) list, Item, Item, string, int, nat, string) Repository" where
  "posts = \<lparr> dynamodb = memoryClient, tableName = ''repository'', schema = PostSchema \<rparr>"

text \<open>
  A schema whose output type differs from its input type, as
  \<^verbatim>\<open>z.object({ pk: z.string(), pinned: z.boolean().transform((b) => (b ? 1 : 0)) })\<close>
  with a transform that adds \<open>sk\<close>: it takes a boolean \<open>pinned\<close> and returns a number.
\<close>

definition PinnedSchema :: "(Item, nat, string) ZodType" where
  "PinnedSchema item g =
     (case map_of item ''pk'' of
        Some (VString p) \<Rightarrow>
          (case map_of item ''pinned'' of
             Some (VBoolean b) \<Rightarrow>
               (Inr [(''pk'', VString p), (''sk'', VString ''post''),
                     (''pinned'', VNumber (if b then 1 else 0))], g)
           | _ \<Rightarrow> (Inl ''pinned: expected boolean'', g))
      | _ \<Rightarrow> (Inl ''pk: expected string'', g))"

definition pinned ::
    "((string \<times> Item) list, Item, Item, string, int, nat, string) Repository" where
  "pinned = \<lparr> dynamodb = memoryClient, tableName = ''repository'', schema = PinnedSchema \<rparr>"

text \<open>A stand-in for \<^verbatim>\<open>JSON.stringify\<close> on keys.\<close>

definition stringifyKey :: "Item \<Rightarrow> string" where
  "stringifyKey key =
     concat (map (\<lambda>(a, v). a @ '':'' @ (case v of VString s \<Rightarrow> s | _ \<Rightarrow> ''?'') @ '';'') key)"

text \<open>
  A table that holds two posts and, after them, an item without \<open>likes\<close>, which
  \<open>PostSchema\<close> rejects.
\<close>

definition seeded :: "((string \<times> Item) list, nat) World" where
  "seeded =
     \<lparr> storage =
         [(''repository'', post ''post1'' 1),
          (''repository'', post ''post2'' 10),
          (''repository'', [(''pk'', VString ''post3''), (''sk'', VString ''post'')])],
       generator = 0 \<rparr>"

definition emptyWorld :: "((string \<times> Item) list, nat) World" where
  "emptyWorld = \<lparr> storage = [], generator = 0 \<rparr>"

section \<open>Properties of the expression compiler\<close>

lemma spread_Nil: "spread a [] = a"
  by (simp add: spread_def)

lemma spread_Cons: "spread a ((k, v) # b) = spread (AList.update k v a) b"
  by (simp add: spread_def)

text \<open>Spreading an object over another: the later object wins, property by property.\<close>

lemma map_of_spread:
  "distinct (map fst b) \<Longrightarrow> map_of (spread a b) = map_of a ++ map_of b"
proof (induction b arbitrary: a)
  case Nil
  show ?case by (simp add: spread_Nil)
next
  case (Cons kv b)
  obtain k v where kv: "kv = (k, v)" by (cases kv)
  from Cons.prems kv have d: "distinct (map fst b)" and nk: "k \<notin> fst ` set b" by auto
  from nk have nd: "k \<notin> dom (map_of b)" by (simp add: dom_map_of_conv_image_fst)
  have "map_of (spread a (kv # b)) = map_of (spread (AList.update k v a) b)"
    by (simp only: kv spread_Cons)
  also have "\<dots> = map_of (AList.update k v a) ++ map_of b"
    by (rule Cons.IH [OF d])
  also have "\<dots> = (map_of a)(k \<mapsto> v) ++ map_of b"
    by (simp only: update_conv')
  also have "\<dots> = map_of a ++ (map_of b)(k \<mapsto> v)"
    using nd by (simp add: map_add_upd_left)
  also have "\<dots> = map_of a ++ map_of (kv # b)"
    by (simp add: kv)
  finally show ?case .
qed

lemma toExpressionValue_Scalar:
  "toExpressionValue key (Scalar v) = [('':'' @ key, Some v)]"
  by (simp add: toExpressionValue_def object_def spread_def)

lemma toExpressionValue_between:
  "toExpressionValue key (Array ''between'' rest) =
     [('':'' @ key @ ''min'', element (Array ''between'' rest) 1),
      ('':'' @ key @ ''max'', element (Array ''between'' rest) 2)]"
  by (simp add: toExpressionValue_def object_def spread_def)

lemma toExpressionValue_other:
  "t \<noteq> ''between'' \<Longrightarrow>
   toExpressionValue key (Array t rest) = [('':'' @ key, element (Array t rest) 1)]"
  by (simp add: toExpressionValue_def object_def spread_def)

lemma distinct_toExpressionValue: "distinct (map fst (toExpressionValue key expr))"
proof (cases expr)
  case (Scalar v)
  then show ?thesis by (simp add: toExpressionValue_Scalar)
next
  case (Array t rest)
  then show ?thesis
    by (cases "t = ''between''") (simp_all add: toExpressionValue_between toExpressionValue_other)
qed

lemma values_snoc:
  "values' (toKeyConditionExpression (keys @ [(k, e)])) =
     spread (values' (toKeyConditionExpression keys)) (toExpressionValue k e)"
  by (simp add: toKeyConditionExpression_def)

lemma map_of_values_snoc:
  "map_of (values' (toKeyConditionExpression (keys @ [(k, e)]))) =
     map_of (values' (toKeyConditionExpression keys)) ++ map_of (toExpressionValue k e)"
  by (simp add: values_snoc map_of_spread distinct_toExpressionValue)

lemma join_append:
  "join sep (xs @ ys) =
     (if xs = [] then join sep ys
      else if ys = [] then join sep xs
      else join sep xs @ sep @ join sep ys)"
  by (induction sep xs rule: join.induct) (auto simp: neq_Nil_conv)

lemma expression_append:
  "expression (toKeyConditionExpression (before @ after)) =
     (if before = [] then expression (toKeyConditionExpression after)
      else if after = [] then expression (toKeyConditionExpression before)
      else expression (toKeyConditionExpression before) @ '' and ''
           @ expression (toKeyConditionExpression after))"
  by (simp add: toKeyConditionExpression_def join_append)

text \<open>
  Entries that come later and synthesize no parameter of the name \<open>p\<close> leave the binding
  of \<open>p\<close> as it is.
\<close>

lemma map_of_values_later:
  "\<forall>(k, e) \<in> set later. p \<notin> fst ` set (toExpressionValue k e) \<Longrightarrow>
   map_of (values' (toKeyConditionExpression (keys @ later))) p =
     map_of (values' (toKeyConditionExpression keys)) p"
proof (induction later rule: rev_induct)
  case Nil
  show ?case by simp
next
  case (snoc x later)
  obtain k e where x: "x = (k, e)" by (cases x)
  from snoc.prems x have none: "p \<notin> fst ` set (toExpressionValue k e)"
    and rest: "\<forall>(k, e) \<in> set later. p \<notin> fst ` set (toExpressionValue k e)"
    by auto
  from none have absent: "map_of (toExpressionValue k e) p = None"
    by (simp add: map_of_eq_None_iff)
  have "map_of (values' (toKeyConditionExpression (keys @ later @ [x]))) p =
        map_of (values' (toKeyConditionExpression ((keys @ later) @ [(k, e)]))) p"
    by (simp add: x)
  also have "\<dots> = (map_of (values' (toKeyConditionExpression (keys @ later)))
                      ++ map_of (toExpressionValue k e)) p"
    by (simp only: map_of_values_snoc)
  also have "\<dots> = map_of (values' (toKeyConditionExpression (keys @ later))) p"
    using absent by (simp add: map_add_def)
  also have "\<dots> = map_of (values' (toKeyConditionExpression keys)) p"
    by (rule snoc.IH [OF rest])
  finally show ?case .
qed

text \<open>
  C5, as the code has it: the mapping \<^verbatim>\<open>{ pk: "post2", sk: ["begins_with", "comment"] }\<close>
  compiles to the condition \<^verbatim>\<open>pk = :pk and begins_with(sk, :sk)\<close> with the bindings
  \<^verbatim>\<open>{ ":pk": "post2", ":sk": "comment" }\<close>. The two-element array tagged \<^verbatim>\<open>begins_with\<close> is
  the prefix match itself and is emitted in the functional form, not as a comparison and
  not as an equality.
\<close>

theorem C5_begins_with_functional_form:
  "toKeyConditionExpression
     [(''pk'', Scalar (VString ''post2'')), (''sk'', Array ''begins_with'' [VString ''comment''])] =
   \<lparr> values' = [('':pk'', Some (VString ''post2'')), ('':sk'', Some (VString ''comment''))],
     expression = ''pk = :pk and begins_with(sk, :sk)'' \<rparr>"
  by (simp add: toKeyConditionExpression_def toExpression_def toExpressionValue_other
        toExpressionValue_Scalar spread_def element_def)

text \<open>
  The condition the mapping of C5 compiles to is not \<^verbatim>\<open>pk = :pk and sk = :sk\<close>.
\<close>

theorem C5_counterexample:
  "expression (toKeyConditionExpression
     [(''pk'', Scalar (VString ''post2'' :: int Value)),
      (''sk'', Array ''begins_with'' [VString ''comment''])])
   \<noteq> ''pk = :pk and sk = :sk''"
  by (simp add: toKeyConditionExpression_def toExpression_def)

text \<open>
  C6, as the code has it: compiling the empty attribute mapping yields the empty condition
  string and an empty binding mapping; the filter compiler does the same for an empty
  mapping, and for an absent mapping it yields an empty binding mapping and no condition
  string at all (\<^verbatim>\<open>undefined\<close>), which is not the empty string.
\<close>

theorem C6_empty_and_absent:
  "toKeyConditionExpression [] = \<lparr> values' = [], expression = '''' \<rparr>
   \<and> toFilterConditionExpression (Some []) = \<lparr> values' = [], expression = Some '''' \<rparr>
   \<and> toFilterConditionExpression None = \<lparr> values' = [], expression = None \<rparr>"
  by (simp add: toKeyConditionExpression_def toFilterConditionExpression_def)

text \<open>
  For an absent mapping the filter compiler does not return the empty condition string
  that compiling the empty mapping returns.
\<close>

theorem C6_counterexample:
  "expression (toFilterConditionExpression (None :: (string \<times> int Expression) list option))
   \<noteq> Some (expression (toKeyConditionExpression ([] :: (string \<times> int Expression) list)))"
  by (simp add: toFilterConditionExpression_def)

text \<open>
  C7: for every attribute mapping with a single entry whose expression is a bare scalar,
  the key-condition compiler yields the condition \<^verbatim>\<open>{name} = :{name}\<close> and the binding
  mapping \<^verbatim>\<open>{ ":{name}": value }\<close>.
\<close>

theorem C7_single_scalar_entry:
  "toKeyConditionExpression [(name, Scalar v)] =
   \<lparr> values' = [('':'' @ name, Some v)], expression = name @ '' = :'' @ name \<rparr>"
  by (simp add: toKeyConditionExpression_def toExpression_def toExpressionValue_Scalar spread_def)

text \<open>
  C8, as the code has it: for every entry \<^verbatim>\<open>["between", min, max]\<close> with attribute name
  \<open>name\<close>, at any place in the mapping, the compiler emits the clause
  \<^verbatim>\<open>{name} between :{name}min and :{name}max\<close> at that place of the conjunction; it binds
  \<^verbatim>\<open>:{name}min\<close> to \<open>min\<close> when no later attribute synthesizes the parameter name
  \<^verbatim>\<open>:{name}min\<close>, and \<^verbatim>\<open>:{name}max\<close> to \<open>max\<close> when no later attribute synthesizes
  \<^verbatim>\<open>:{name}max\<close>, each on its own. For a mapping with that single entry the clause and the
  two bindings are the whole result.
\<close>

theorem C8_between_entry:
  "toKeyConditionExpression [(name, Array ''between'' [lo, hi])] =
     \<lparr> values' = [('':'' @ name @ ''min'', Some lo), ('':'' @ name @ ''max'', Some hi)],
       expression = name @ '' between :'' @ name @ ''min and :'' @ name @ ''max'' \<rparr>
   \<and> expression
        (toKeyConditionExpression (before @ [(name, Array ''between'' [lo, hi])] @ after)) =
       (if before = [] then '''' else expression (toKeyConditionExpression before) @ '' and '')
       @ name @ '' between :'' @ name @ ''min and :'' @ name @ ''max''
       @ (if after = [] then '''' else '' and '' @ expression (toKeyConditionExpression after))
   \<and> ((\<forall>(k, e) \<in> set after. '':'' @ name @ ''min'' \<notin> fst ` set (toExpressionValue k e)) \<longrightarrow>
        map_of (values'
          (toKeyConditionExpression (before @ [(name, Array ''between'' [lo, hi])] @ after)))
          ('':'' @ name @ ''min'') = Some (Some lo))
   \<and> ((\<forall>(k, e) \<in> set after. '':'' @ name @ ''max'' \<notin> fst ` set (toExpressionValue k e)) \<longrightarrow>
        map_of (values'
          (toKeyConditionExpression (before @ [(name, Array ''between'' [lo, hi])] @ after)))
          ('':'' @ name @ ''max'') = Some (Some hi))"
proof -
  let ?entry = "(name, Array ''between'' [lo, hi])"
  have single: "toKeyConditionExpression [?entry] =
     \<lparr> values' = [('':'' @ name @ ''min'', Some lo), ('':'' @ name @ ''max'', Some hi)],
       expression = name @ '' between :'' @ name @ ''min and :'' @ name @ ''max'' \<rparr>"
    by (simp add: toKeyConditionExpression_def toExpression_def toExpressionValue_between
          spread_def element_def)
  have bindings: "toExpressionValue name (Array ''between'' [lo, hi]) =
      [('':'' @ name @ ''min'', Some lo), ('':'' @ name @ ''max'', Some hi)]"
    by (simp add: toExpressionValue_between element_def)
  have placed: "expression (toKeyConditionExpression (before @ [?entry] @ after)) =
       (if before = [] then '''' else expression (toKeyConditionExpression before) @ '' and '')
       @ name @ '' between :'' @ name @ ''min and :'' @ name @ ''max''
       @ (if after = [] then '''' else '' and '' @ expression (toKeyConditionExpression after))"
  proof -
    have one: "expression (toKeyConditionExpression [?entry]) =
        name @ '' between :'' @ name @ ''min and :'' @ name @ ''max''"
      by (simp add: single)
    have tail: "expression (toKeyConditionExpression ([?entry] @ after)) =
        name @ '' between :'' @ name @ ''min and :'' @ name @ ''max''
        @ (if after = [] then '''' else '' and '' @ expression (toKeyConditionExpression after))"
      using expression_append [of "[?entry]" after] one by simp
    show ?thesis
      using expression_append [of before "[?entry] @ after"] tail by simp
  qed
  have lo: "map_of (values' (toKeyConditionExpression (before @ [?entry] @ after)))
              ('':'' @ name @ ''min'') = Some (Some lo)"
    if "\<forall>(k, e) \<in> set after. '':'' @ name @ ''min'' \<notin> fst ` set (toExpressionValue k e)"
  proof -
    have "map_of (values' (toKeyConditionExpression ((before @ [?entry]) @ after)))
            ('':'' @ name @ ''min'')
          = map_of (values' (toKeyConditionExpression (before @ [?entry]))) ('':'' @ name @ ''min'')"
      by (rule map_of_values_later [OF that])
    also have "\<dots> = Some (Some lo)"
      by (simp add: map_of_values_snoc bindings)
    finally show ?thesis by simp
  qed
  have hi: "map_of (values' (toKeyConditionExpression (before @ [?entry] @ after)))
              ('':'' @ name @ ''max'') = Some (Some hi)"
    if "\<forall>(k, e) \<in> set after. '':'' @ name @ ''max'' \<notin> fst ` set (toExpressionValue k e)"
  proof -
    have "map_of (values' (toKeyConditionExpression ((before @ [?entry]) @ after)))
            ('':'' @ name @ ''max'')
          = map_of (values' (toKeyConditionExpression (before @ [?entry]))) ('':'' @ name @ ''max'')"
      by (rule map_of_values_later [OF that])
    also have "\<dots> = Some (Some hi)"
      by (simp add: map_of_values_snoc bindings)
    finally show ?thesis by simp
  qed
  from single placed lo hi show ?thesis by (intro conjI impI)
qed

theorem C8_between_entry_witness:
  "'':likesmin'' \<notin> fst ` set (toExpressionValue ''userId'' (Scalar (VString ''user1'' :: int Value)))
   \<and> '':likesmax'' \<notin> fst ` set (toExpressionValue ''userId'' (Scalar (VString ''user1'' :: int Value)))
   \<and> expression (toKeyConditionExpression
        [(''pk'', Scalar (VString ''post2'')), (''likes'', Array ''between'' [VNumber 1, VNumber 5]),
         (''userId'', Scalar (VString ''user1'' :: int Value))])
       = ''pk = :pk and likes between :likesmin and :likesmax and userId = :userId''
   \<and> map_of (values' (toKeyConditionExpression
        [(''pk'', Scalar (VString ''post2'')), (''likes'', Array ''between'' [VNumber 1, VNumber 5]),
         (''userId'', Scalar (VString ''user1'' :: int Value))])) '':likesmin''
       = Some (Some (VNumber 1))
   \<and> map_of (values' (toKeyConditionExpression
        [(''pk'', Scalar (VString ''post2'')), (''likes'', Array ''between'' [VNumber 1, VNumber 5]),
         (''userId'', Scalar (VString ''user1'' :: int Value))])) '':likesmax''
       = Some (Some (VNumber 5))"
proof -
  note claim = C8_between_entry
    [where name = "''likes''" and lo = "VNumber 1 :: int Value" and hi = "VNumber 5"
       and before = "[(''pk'', Scalar (VString ''post2''))]"
       and after = "[(''userId'', Scalar (VString ''user1''))]"]
  have free_min:
    "'':likesmin'' \<notin> fst ` set (toExpressionValue ''userId'' (Scalar (VString ''user1'' :: int Value)))"
    by (simp add: toExpressionValue_Scalar)
  have free_max:
    "'':likesmax'' \<notin> fst ` set (toExpressionValue ''userId'' (Scalar (VString ''user1'' :: int Value)))"
    by (simp add: toExpressionValue_Scalar)
  have before: "expression (toKeyConditionExpression
        [(''pk'', Scalar (VString ''post2'' :: int Value))]) = ''pk = :pk''"
    by (simp add: toKeyConditionExpression_def toExpression_def)
  have after: "expression (toKeyConditionExpression
        [(''userId'', Scalar (VString ''user1'' :: int Value))]) = ''userId = :userId''"
    by (simp add: toKeyConditionExpression_def toExpression_def)
  from claim free_min free_max before after show ?thesis by simp
qed

text \<open>
  The binding of C8 is lost to a later attribute with the same parameter name: in
  \<^verbatim>\<open>{ x: ["between", 1, 2], xmin: 3 }\<close> the parameter \<^verbatim>\<open>:xmin\<close> is bound to 3, not to the
  \<open>min\<close> of the \<^verbatim>\<open>between\<close>.
\<close>

theorem C8_counterexample:
  "map_of (values' (toKeyConditionExpression
      [(''x'', Array ''between'' [VNumber 1, VNumber 2]), (''xmin'', Scalar (VNumber (3 :: int)))]))
      '':xmin'' = Some (Some (VNumber 3))
   \<and> map_of (values' (toKeyConditionExpression
      [(''x'', Array ''between'' [VNumber 1, VNumber 2]), (''xmin'', Scalar (VNumber (3 :: int)))]))
      '':xmin'' \<noteq> Some (Some (VNumber 1))"
  by (simp add: toKeyConditionExpression_def toExpressionValue_between toExpressionValue_Scalar
        spread_def element_def)

text \<open>
  C9: for every two-element array \<^verbatim>\<open>[t, v]\<close> whose tag \<open>t\<close> is neither \<^verbatim>\<open>between\<close> nor
  \<^verbatim>\<open>begins_with\<close>, compilation takes the default comparison branch: it emits the clause
  \<^verbatim>\<open>{name} {t} :{name}\<close> and binds \<^verbatim>\<open>:{name}\<close> to the second element \<open>v\<close>, not to the array.
\<close>

theorem C9_unrecognized_tag:
  assumes "t \<noteq> ''between''" and "t \<noteq> ''begins_with''"
  shows "toExpression name (Array t [v]) = name @ '' '' @ t @ '' :'' @ name
       \<and> toExpressionValue name (Array t [v]) = [('':'' @ name, Some v)]
       \<and> toKeyConditionExpression [(name, Array t [v])] =
           \<lparr> values' = [('':'' @ name, Some v)], expression = name @ '' '' @ t @ '' :'' @ name \<rparr>"
  using assms
  by (simp add: toKeyConditionExpression_def toExpression_def toExpressionValue_other
        spread_def element_def)

theorem C9_unrecognized_tag_witness:
  "''contains'' \<noteq> ''between'' \<and> ''contains'' \<noteq> ''begins_with''
   \<and> toExpression ''content'' (Array ''contains'' [VString ''lyf'' :: int Value])
       = ''content contains :content''
   \<and> toExpressionValue ''content'' (Array ''contains'' [VString ''lyf'' :: int Value])
       = [('':content'', Some (VString ''lyf''))]
   \<and> toKeyConditionExpression [(''content'', Array ''contains'' [VString ''lyf'' :: int Value])]
       = \<lparr> values' = [('':content'', Some (VString ''lyf''))],
           expression = ''content contains :content'' \<rparr>"
proof -
  have a: "''contains'' \<noteq> ''between''" and b: "''contains'' \<noteq> ''begins_with''"
    by simp_all
  from C9_unrecognized_tag [OF a b, of "''content''" "VString ''lyf'' :: int Value"] a b
  show ?thesis by simp
qed

text \<open>
  C10: the binding mappings of the attributes are merged left to right in iteration order,
  and a later attribute's binding overwrites an earlier one under the same synthesized
  parameter name. With \<open>x\<close> as a \<^verbatim>\<open>between\<close> and then \<open>xmin\<close> as a bare scalar both
  synthesize \<^verbatim>\<open>:xmin\<close>: the result binds \<^verbatim>\<open>:xmin\<close> to the value of \<open>xmin\<close> only, and the
  condition string still has both clauses.
\<close>

theorem C10_later_binding_overwrites:
  "values' (toKeyConditionExpression (keys @ [(k, e)])) =
     spread (values' (toKeyConditionExpression keys)) (toExpressionValue k e)
   \<and> map_of (values' (toKeyConditionExpression (keys @ [(k, e)]))) =
       map_of (values' (toKeyConditionExpression keys)) ++ map_of (toExpressionValue k e)
   \<and> toKeyConditionExpression [(''x'', Array ''between'' [a, b]), (''xmin'', Scalar c)] =
       \<lparr> values' = [('':xmin'', Some c), ('':xmax'', Some b)],
         expression = ''x between :xmin and :xmax and xmin = :xmin'' \<rparr>"
proof -
  have example:
    "toKeyConditionExpression [(''x'', Array ''between'' [a, b]), (''xmin'', Scalar c)] =
       \<lparr> values' = [('':xmin'', Some c), ('':xmax'', Some b)],
         expression = ''x between :xmin and :xmax and xmin = :xmin'' \<rparr>"
    by (simp add: toKeyConditionExpression_def toExpression_def toExpressionValue_between
          toExpressionValue_Scalar spread_def element_def)
  from values_snoc [of keys k e] map_of_values_snoc [of keys k e] example
  show ?thesis by (intro conjI)
qed

section \<open>Properties of the repository\<close>

lemma put_validated:
  "fst (put r data w) = Inr a \<Longrightarrow> fst (parse r data (generator w)) = Inr a"
  by (auto simp: put_def split: prod.splits sum.splits)

lemma get_validated:
  "fst (get JSON_stringify r key w) = Inr a \<Longrightarrow>
   \<exists>Item. doc_get (dynamodb r) (tableName r) key (storage w) = Inr (Some Item)
        \<and> fst (parse r Item (generator w)) = Inr a"
  by (auto simp: get_def split: prod.splits sum.splits option.splits)

lemma yieldAll_length:
  "length (yielded (yieldAll r items paginator g)) \<le> length (items @ fetched paginator)"
  by (induction r items paginator g rule: yieldAll.induct)
     (auto split: prod.splits sum.splits option.splits)

lemma yieldAll_complete:
  "\<forall>d. thrown (yieldAll r items paginator g) \<noteq> Some (ZodError d) \<Longrightarrow>
   length (yielded (yieldAll r items paginator g)) = length (items @ fetched paginator)"
  by (induction r items paginator g rule: yieldAll.induct)
     (auto split: prod.splits sum.splits option.splits)

lemma yieldAll_validated:
  "j < length (yielded (yieldAll r items paginator g)) \<Longrightarrow>
   fst (parse r ((items @ fetched paginator) ! j)
          (generatorAt r (items @ fetched paginator) g j))
     = Inr (yielded (yieldAll r items paginator g) ! j)"
proof (induction r items paginator g arbitrary: j rule: yieldAll.induct)
  case (1 r item items paginator g)
  show ?case
  proof (cases "parse r item g")
    case (Pair res g')
    show ?thesis
    proof (cases res)
      case (Inl d)
      with Pair "1.prems" show ?thesis by simp
    next
      case (Inr parsed)
      show ?thesis
      proof (cases j)
        case 0
        then show ?thesis using Pair Inr by simp
      next
        case (Suc j')
        with "1.prems" Pair Inr have "j' < length (yielded (yieldAll r items paginator g'))"
          by simp
        from "1.IH" [OF Pair [symmetric] Inr this] show ?thesis using Pair Inr Suc by simp
      qed
    qed
  qed
next
  case (2 r page paginator g)
  then show ?case by (simp split: option.splits)
next
  case (3 r g)
  then show ?case by simp
next
  case (4 r x g)
  then show ?case by simp
qed

lemma yieldAll_aborts:
  "thrown (yieldAll r items paginator g) = Some (ZodError d) \<Longrightarrow>
   length (yielded (yieldAll r items paginator g)) < length (items @ fetched paginator) \<and>
   fst (parse r ((items @ fetched paginator) ! length (yielded (yieldAll r items paginator g)))
          (generatorAt r (items @ fetched paginator) g
             (length (yielded (yieldAll r items paginator g))))) = Inl d"
proof (induction r items paginator g rule: yieldAll.induct)
  case (1 r item items paginator g)
  show ?case
  proof (cases "parse r item g")
    case (Pair res g')
    show ?thesis
    proof (cases res)
      case (Inl d')
      with Pair "1.prems" have "d' = d" by simp
      then show ?thesis using Pair Inl by simp
    next
      case (Inr parsed)
      with "1.prems" Pair have "thrown (yieldAll r items paginator g') = Some (ZodError d)"
        by simp
      from "1.IH" [OF Pair [symmetric] Inr this] show ?thesis using Pair Inr by simp
    qed
  qed
next
  case (2 r page paginator g)
  then show ?case by (simp split: option.splits)
next
  case (3 r g)
  then show ?case by simp
next
  case (4 r x g)
  then show ?case by simp
qed

lemma validatedRun_yieldAll:
  "validatedRun r (fetched paginator) g (yieldAll r [] paginator g)"
  unfolding validatedRun_def
  using yieldAll_length [of r "[]" paginator g]
        yieldAll_validated [of _ r "[]" paginator g]
        yieldAll_aborts [of r "[]" paginator g]
        yieldAll_complete [of r "[]" paginator g]
  by simp

text \<open>
  C1: whatever a repository operation hands to its caller has passed the schema's
  validation. \<^verbatim>\<open>put\<close> returns what the schema returned for its input; \<^verbatim>\<open>get\<close> returns
  what the schema returned for the raw item it fetched; \<^verbatim>\<open>scan\<close> and \<^verbatim>\<open>query\<close> yield,
  item by item, what the schema returned for the raw items of the pages, and when the
  schema rejects an item the sequence ends there with that validation error, after the
  items already yielded; a sequence that does not end with a validation error has yielded
  every raw item. No operation returns a raw item.
\<close>

theorem C1_only_validated_items:
  "(fst (put r data w) = Inr a \<longrightarrow> fst (parse r data (generator w)) = Inr a)
   \<and> (fst (get JSON_stringify r key w) = Inr b \<longrightarrow>
        (\<exists>Item. doc_get (dynamodb r) (tableName r) key (storage w) = Inr (Some Item)
              \<and> fst (parse r Item (generator w)) = Inr b))
   \<and> validatedRun r (fetched (scanPaginator r w)) (generator w) (scan r w)
   \<and> validatedRun r (fetched (queryPaginator r keys params w)) (generator w)
         (query r keys params w)"
  using put_validated [of r data w a] get_validated [of JSON_stringify r key w b]
  by (simp add: scan_def query_def validatedRun_yieldAll)

theorem C1_only_validated_items_witness:
  "fst (put posts [(''likes'', VNumber 4)] seeded) = Inr (post ''id'' 4)
   \<and> fst (parse posts [(''likes'', VNumber 4)] (generator seeded)) = Inr (post ''id'' 4)
   \<and> fst (get stringifyKey posts [(''pk'', VString ''post1''), (''sk'', VString ''post'')] seeded)
       = Inr (post ''post1'' 1)
   \<and> (\<exists>Item. doc_get (dynamodb posts) (tableName posts)
                [(''pk'', VString ''post1''), (''sk'', VString ''post'')] (storage seeded)
              = Inr (Some Item)
            \<and> fst (parse posts Item (generator seeded)) = Inr (post ''post1'' 1))
   \<and> scan posts seeded =
       Yield (post ''post1'' 1) (Yield (post ''post2'' 10)
         (Throw (ZodError ''likes: expected number'')))
   \<and> validatedRun posts (fetched (scanPaginator posts seeded)) (generator seeded)
         (scan posts seeded)
   \<and> query posts [(''pk'', Scalar (VString ''post2''))] None seeded
       = Yield (post ''post2'' 10) Return
   \<and> validatedRun posts
        (fetched (queryPaginator posts [(''pk'', Scalar (VString ''post2''))] None seeded))
        (generator seeded) (query posts [(''pk'', Scalar (VString ''post2''))] None seeded)"
proof -
  note claim = C1_only_validated_items
    [where r = posts and w = seeded and data = "[(''likes'', VNumber 4)]"
       and a = "post ''id'' 4" and JSON_stringify = stringifyKey
       and key = "[(''pk'', VString ''post1''), (''sk'', VString ''post'')]"
       and b = "post ''post1'' 1" and keys = "[(''pk'', Scalar (VString ''post2''))]"
       and params = None]
  have returned: "fst (put posts [(''likes'', VNumber 4)] seeded) = Inr (post ''id'' 4)"
    by (simp add: posts_def seeded_def memoryClient_def itemsOf_def hasKey_def primaryKey_def PostSchema_def post_def uuid_def
          parse_def put_def get_def scan_def query_def scanPaginator_def queryPaginator_def)
  have read:
    "fst (get stringifyKey posts [(''pk'', VString ''post1''), (''sk'', VString ''post'')] seeded)
       = Inr (post ''post1'' 1)"
    by (simp add: posts_def seeded_def memoryClient_def itemsOf_def hasKey_def primaryKey_def PostSchema_def post_def uuid_def
          parse_def put_def get_def scan_def query_def scanPaginator_def queryPaginator_def)
  have scanned: "scan posts seeded =
       Yield (post ''post1'' 1) (Yield (post ''post2'' 10)
         (Throw (ZodError ''likes: expected number'')))"
    by (simp add: posts_def seeded_def memoryClient_def itemsOf_def hasKey_def primaryKey_def PostSchema_def post_def uuid_def
          parse_def put_def get_def scan_def query_def scanPaginator_def queryPaginator_def)
  have queried: "query posts [(''pk'', Scalar (VString ''post2''))] None seeded
       = Yield (post ''post2'' 10) Return"
    by (simp add: posts_def seeded_def memoryClient_def itemsOf_def hasKey_def primaryKey_def PostSchema_def post_def uuid_def
          parse_def put_def get_def scan_def query_def scanPaginator_def queryPaginator_def
          toKeyConditionExpression_def toExpressionValue_def toExpression_def object_def
          spread_def)
  from claim returned read scanned queried show ?thesis by blast
qed

text \<open>
  C2, as the code has it: \<^verbatim>\<open>get\<close> validates what it reads with the same schema that
  \<^verbatim>\<open>put\<close> applied, so the round trip holds for the items whose validated form the schema
  accepts again and returns unchanged. For every item that the schema accepts, over a
  storage in which the write is visible to the read under the key \<open>key\<close>, and for which
  the schema maps the validated form to itself at the time of the read, \<^verbatim>\<open>put\<close> returns the
  validated form (with any generated defaults) and the following \<^verbatim>\<open>get\<close> returns the same
  item.
\<close>

theorem C2_round_trip:
  assumes valid: "parse r data (generator w) = (Inr parsed, g1)"
      and written: "doc_put (dynamodb r) (tableName r) parsed (storage w) = (Inr u, s1)"
      and visible: "doc_get (dynamodb r) (tableName r) key s1 = Inr (Some parsed)"
      and stable: "fst (parse r parsed g1) = Inr parsed"
  shows "fst (put r data w) = Inr parsed
       \<and> fst (get JSON_stringify r key (snd (put r data w))) = Inr parsed"
proof -
  have after: "put r data w = (Inr parsed, \<lparr>storage = s1, generator = g1\<rparr>)"
    using valid written by (simp add: put_def)
  obtain res g2 where again: "parse r parsed g1 = (res, g2)"
    by (cases "parse r parsed g1")
  with stable have "res = Inr parsed" by simp
  with again visible
  have "fst (get JSON_stringify r key \<lparr>storage = s1, generator = g1\<rparr>) = Inr parsed"
    by (simp add: get_def)
  with after show ?thesis by simp
qed

theorem C2_round_trip_witness:
  "parse posts [(''likes'', VNumber 4)] (generator emptyWorld) = (Inr (post ''id'' 4), 1)
   \<and> doc_put (dynamodb posts) (tableName posts) (post ''id'' 4) (storage emptyWorld)
       = (Inr (), [(''repository'', post ''id'' 4)])
   \<and> doc_get (dynamodb posts) (tableName posts)
        [(''pk'', VString ''id''), (''sk'', VString ''post'')] [(''repository'', post ''id'' 4)]
       = Inr (Some (post ''id'' 4))
   \<and> fst (parse posts (post ''id'' 4) 1) = Inr (post ''id'' 4)
   \<and> fst (put posts [(''likes'', VNumber 4)] emptyWorld) = Inr (post ''id'' 4)
   \<and> fst (get stringifyKey posts [(''pk'', VString ''id''), (''sk'', VString ''post'')]
            (snd (put posts [(''likes'', VNumber 4)] emptyWorld))) = Inr (post ''id'' 4)"
proof -
  have valid: "parse posts [(''likes'', VNumber 4)] (generator emptyWorld)
      = (Inr (post ''id'' 4), 1)"
    by (simp add: posts_def emptyWorld_def memoryClient_def itemsOf_def hasKey_def primaryKey_def PostSchema_def post_def
          uuid_def parse_def)
  have written: "doc_put (dynamodb posts) (tableName posts) (post ''id'' 4) (storage emptyWorld)
       = (Inr (), [(''repository'', post ''id'' 4)])"
    by (simp add: posts_def emptyWorld_def memoryClient_def itemsOf_def hasKey_def primaryKey_def PostSchema_def post_def
          uuid_def parse_def)
  have visible: "doc_get (dynamodb posts) (tableName posts)
        [(''pk'', VString ''id''), (''sk'', VString ''post'')] [(''repository'', post ''id'' 4)]
       = Inr (Some (post ''id'' 4))"
    by (simp add: posts_def emptyWorld_def memoryClient_def itemsOf_def hasKey_def primaryKey_def PostSchema_def post_def
          uuid_def parse_def)
  have stable: "fst (parse posts (post ''id'' 4) 1) = Inr (post ''id'' 4)"
    by (simp add: posts_def emptyWorld_def memoryClient_def itemsOf_def hasKey_def primaryKey_def PostSchema_def post_def
          uuid_def parse_def)
  from C2_round_trip [OF valid written visible stable, of stringifyKey]
    valid written visible stable
  show ?thesis by simp
qed

text \<open>
  The round trip of C2 fails for a schema whose output it does not accept as input: the
  item is valid, the write is visible to the read, and \<^verbatim>\<open>get\<close> ends with a validation
  error instead of the validated form.
\<close>

theorem C2_counterexample:
  "parse pinned [(''pk'', VString ''post1''), (''pinned'', VBoolean True)] (generator emptyWorld)
     = (Inr [(''pk'', VString ''post1''), (''sk'', VString ''post''), (''pinned'', VNumber 1)], 0)
   \<and> doc_put (dynamodb pinned) (tableName pinned)
        [(''pk'', VString ''post1''), (''sk'', VString ''post''), (''pinned'', VNumber 1)]
        (storage emptyWorld)
       = (Inr (), [(''repository'',
            [(''pk'', VString ''post1''), (''sk'', VString ''post''), (''pinned'', VNumber 1)])])
   \<and> doc_get (dynamodb pinned) (tableName pinned)
        [(''pk'', VString ''post1''), (''sk'', VString ''post'')]
        [(''repository'',
            [(''pk'', VString ''post1''), (''sk'', VString ''post''), (''pinned'', VNumber 1)])]
       = Inr (Some [(''pk'', VString ''post1''), (''sk'', VString ''post''), (''pinned'', VNumber 1)])
   \<and> fst (put pinned [(''pk'', VString ''post1''), (''pinned'', VBoolean True)] emptyWorld)
       = Inr [(''pk'', VString ''post1''), (''sk'', VString ''post''), (''pinned'', VNumber 1)]
   \<and> fst (get stringifyKey pinned [(''pk'', VString ''post1''), (''sk'', VString ''post'')]
            (snd (put pinned [(''pk'', VString ''post1''), (''pinned'', VBoolean True)] emptyWorld)))
       = Inl (ZodError ''pinned: expected boolean'')"
  by (simp add: pinned_def emptyWorld_def memoryClient_def itemsOf_def hasKey_def primaryKey_def PinnedSchema_def
        parse_def put_def get_def)

text \<open>
  C3: when the schema rejects the input of \<^verbatim>\<open>put\<close>, \<^verbatim>\<open>put\<close> ends with that validation
  error, carrying the schema's diagnostic, and the storage is as it was: the storage client
  is not called, the outcome is what the schema returned and nothing else.
\<close>

theorem C3_invalid_put_writes_nothing:
  assumes "fst (parse r data (generator w)) = Inl d"
  shows "fst (put r data w) = Inl (ZodError d)
       \<and> storage (snd (put r data w)) = storage w
       \<and> put r data w = (Inl (ZodError d), w\<lparr>generator := snd (parse r data (generator w))\<rparr>)"
  using assms by (auto simp: put_def split: prod.splits sum.splits)

theorem C3_invalid_put_writes_nothing_witness:
  "fst (parse posts [(''pk'', VString ''post5''), (''sk'', VNumber 3), (''likes'', VString ''lots'')]
          (generator seeded)) = Inl ''likes: expected number''
   \<and> fst (put posts [(''pk'', VString ''post5''), (''sk'', VNumber 3), (''likes'', VString ''lots'')]
          seeded) = Inl (ZodError ''likes: expected number'')
   \<and> storage (snd (put posts
          [(''pk'', VString ''post5''), (''sk'', VNumber 3), (''likes'', VString ''lots'')] seeded))
       = storage seeded"
proof -
  have rejected:
    "fst (parse posts [(''pk'', VString ''post5''), (''sk'', VNumber 3), (''likes'', VString ''lots'')]
          (generator seeded)) = Inl ''likes: expected number''"
    by (simp add: posts_def seeded_def PostSchema_def parse_def)
  from C3_invalid_put_writes_nothing [OF rejected] rejected show ?thesis by simp
qed

text \<open>
  C4: when the storage holds no item for the key, \<^verbatim>\<open>get\<close> ends with a
  \<^verbatim>\<open>NotFoundError\<close> whose message names the table and the key that was looked up; it does
  not return a value, and it leaves the storage and the generator as they were.
\<close>

theorem C4_get_missing_item:
  assumes "doc_get (dynamodb r) (tableName r) key (storage w) = Inr None"
  shows "fst (get JSON_stringify r key w) =
           Inl (NotFoundError
                  (''Item not found in '' @ tableName r @ '' for keys '' @ JSON_stringify key))
       \<and> (\<forall>a. fst (get JSON_stringify r key w) \<noteq> Inr a)
       \<and> snd (get JSON_stringify r key w) = w"
  using assms by (simp add: get_def)

theorem C4_get_missing_item_witness:
  "doc_get (dynamodb posts) (tableName posts)
      [(''pk'', VString ''post9''), (''sk'', VString ''post'')] (storage seeded) = Inr None
   \<and> fst (get stringifyKey posts [(''pk'', VString ''post9''), (''sk'', VString ''post'')] seeded)
       = Inl (NotFoundError ''Item not found in repository for keys pk:post9;sk:post;'')"
proof -
  have missing: "doc_get (dynamodb posts) (tableName posts)
      [(''pk'', VString ''post9''), (''sk'', VString ''post'')] (storage seeded) = Inr None"
    by (simp add: posts_def seeded_def memoryClient_def itemsOf_def hasKey_def primaryKey_def post_def stringifyKey_def)
  have message: "''Item not found in '' @ tableName posts @ '' for keys ''
        @ stringifyKey [(''pk'', VString ''post9''), (''sk'', VString ''post'')]
      = ''Item not found in repository for keys pk:post9;sk:post;''"
    by (simp add: posts_def seeded_def memoryClient_def itemsOf_def hasKey_def primaryKey_def post_def stringifyKey_def)
  from C4_get_missing_item [OF missing, of stringifyKey] missing message
  show ?thesis by simp
qed

end
